theory Spec2Isabelle
  imports Main "HOL-Library.Word"
begin

section \<open>The profile collector of dd-trace-go (profiler/profile.go)\<close>

text \<open>
  A shallow embedding of \<^verbatim>\<open>profiler/profile.go\<close>: the profile type registry, the batch,
  the dispatcher \<^verbatim>\<open>runProfile\<close>, the seven collection strategies and the converter
  \<^verbatim>\<open>goroutineDebug2ToPprof\<close> from a goroutine dump to a pprof profile.

  Go's fixed-width integers are words: \<^verbatim>\<open>uint64\<close> and \<^verbatim>\<open>int64\<close> are both \<open>64 word\<close>,
  read with \<open>unat\<close> and \<open>sint\<close>. Go's \<^verbatim>\<open>int\<close> (the type under \<^verbatim>\<open>ProfileType\<close> and of a
  frame's line) is an \<open>int\<close>: the code only compares and converts such values.
\<close>

type_synonym uint64 = "64 word"
type_synonym int64 = "64 word"

subsection \<open>Errors\<close>

text \<open>
  A Go \<^verbatim>\<open>error\<close> is the message it carries: \<^verbatim>\<open>errors.New(s)\<close> builds it,
  \<^verbatim>\<open>err.Error()\<close> reads it; a \<^verbatim>\<open>nil\<close> error is \<open>None\<close>.
\<close>

datatype error = errors_New string

fun error_Error :: "error \<Rightarrow> string" where
  "error_Error (errors_New s) = s"

subsection \<open>ProfileType and its three projections\<close>

type_synonym ProfileType = int

definition HeapProfile :: ProfileType where "HeapProfile = 0"
definition CPUProfile :: ProfileType where "CPUProfile = 1"
definition BlockProfile :: ProfileType where "BlockProfile = 2"
definition MutexProfile :: ProfileType where "MutexProfile = 3"
definition GoroutineProfile :: ProfileType where "GoroutineProfile = 4"
definition GoroutineWaitProfile :: ProfileType where "GoroutineWaitProfile = 5"
definition MetricsProfile :: ProfileType where "MetricsProfile = 6"

lemmas ProfileType_defs =
  HeapProfile_def CPUProfile_def BlockProfile_def MutexProfile_def
  GoroutineProfile_def GoroutineWaitProfile_def MetricsProfile_def

text \<open>\<^verbatim>\<open>func (t ProfileType) String() string\<close>, the cases in the order of the switch.\<close>

definition ProfileType_String :: "ProfileType \<Rightarrow> string" where
  "ProfileType_String t =
     (if t = HeapProfile then ''heap''
      else if t = CPUProfile then ''cpu''
      else if t = MutexProfile then ''mutex''
      else if t = BlockProfile then ''block''
      else if t = GoroutineProfile then ''goroutine''
      else if t = GoroutineWaitProfile then ''goroutinewait''
      else if t = MetricsProfile then ''metrics''
      else ''unknown'')"

text \<open>\<^verbatim>\<open>func (t ProfileType) Filename() string\<close>.\<close>

definition ProfileType_Filename :: "ProfileType \<Rightarrow> string" where
  "ProfileType_Filename t =
     (if t = HeapProfile then ''heap.pprof''
      else if t = CPUProfile then ''cpu.pprof''
      else if t = MutexProfile then ''mutex.pprof''
      else if t = BlockProfile then ''block.pprof''
      else if t = GoroutineProfile then ''goroutines.pprof''
      else if t = GoroutineWaitProfile then ''goroutineswait.pprof''
      else if t = MetricsProfile then ''metrics.json''
      else ''unknown'')"

text \<open>
  \<^verbatim>\<open>func (t ProfileType) Tag() string\<close> is \<^verbatim>\<open>fmt.Sprintf("profile_type:%s", t)\<close>; the
  verb \<^verbatim>\<open>%s\<close> formats a value that has a \<^verbatim>\<open>String\<close> method with that method.
\<close>

definition ProfileType_Tag :: "ProfileType \<Rightarrow> string" where
  "ProfileType_Tag t = ''profile_type:'' @ ProfileType_String t"

subsection \<open>Profiles and batches\<close>

type_synonym bytes = "8 word list"

record profile =
  profile_name :: string
  profile_data :: bytes

text \<open>
  \<^verbatim>\<open>batch\<close>: the timestamps are values of an abstract type of times; the slice of
  profile pointers is the list of the profiles.
\<close>

record 't batch =
  batch_start :: 't
  batch_end :: 't
  batch_host :: string
  batch_profiles :: "profile list"

text \<open>\<^verbatim>\<open>func (b *batch) addProfile(p *profile)\<close>; the result is the batch afterwards.\<close>

definition addProfile :: "'t batch \<Rightarrow> profile \<Rightarrow> 't batch" where
  "addProfile b q = b\<lparr>batch_profiles := batch_profiles b @ [q]\<rparr>"

subsection \<open>The parsed goroutine dump\<close>

text \<open>
  Modelled from the spec: the type \<^verbatim>\<open>stackparse.Frame\<close> of the package
  \<^verbatim>\<open>profiler/internal/stackparse\<close>, which is not embedded here. The spec's Frame is
  \<open>{function: string, file: string, line: integer}\<close>; the field names are those that
  \<^verbatim>\<open>goroutineDebug2ToPprof\<close> reads (\<^verbatim>\<open>call.Func\<close>, \<^verbatim>\<open>call.File\<close>, \<^verbatim>\<open>call.Line\<close>).
\<close>

record Frame =
  Func :: string
  File :: string
  Line :: int

text \<open>A \<^verbatim>\<open>time.Duration\<close> is an \<^verbatim>\<open>int64\<close> count of nanoseconds.\<close>

type_synonym Duration = int64

text \<open>
  Modelled from the spec: the type \<^verbatim>\<open>stackparse.Goroutine\<close> of the same package. The spec's
  TaskRecord is \<open>{id: unsigned 64-bit integer, state: string, wait: duration, stack: ordered
  sequence of Frame, framesElided: boolean}\<close>, the stack ordered innermost frame first; the
  field names are those that \<^verbatim>\<open>goroutineDebug2ToPprof\<close> reads.
\<close>

record Goroutine =
  ID :: uint64
  State :: string
  Wait :: Duration
  Stack :: "Frame list"
  FramesElided :: bool

text \<open>\<^verbatim>\<open>func (d Duration) Nanoseconds() int64 { return int64(d) }\<close> and the unit used below.\<close>

definition Duration_Nanoseconds :: "Duration \<Rightarrow> int64" where
  "Duration_Nanoseconds d = d"

definition Minute :: Duration where
  "Minute = 60 * 1000000000"

subsection \<open>The pprof profile graph\<close>

text \<open>
  The structures of \<^verbatim>\<open>github.com/google/pprof/profile\<close>, with the fields the converter
  sets (every other field keeps Go's zero value). The converter never changes an entry
  after it has stored a pointer to it, so a pointer is modelled by the value it points to.
\<close>

record ValueType =
  ValueType_Type :: string
  ValueType_Unit :: string

record Mapping =
  Mapping_ID :: uint64
  Mapping_HasFunctions :: bool

record Function =
  Function_ID :: uint64
  Function_Name :: string
  Function_Filename :: string

record Line_entry =
  Line_Function :: Function
  Line_Line :: int64

record Location =
  Location_ID :: uint64
  Location_Mapping :: Mapping
  Location_Line :: "Line_entry list"

record Sample =
  Sample_Location :: "Location list"
  Sample_Value :: "int64 list"
  Sample_Label :: "string \<rightharpoonup> string list"
  Sample_NumLabel :: "string \<rightharpoonup> int64 list"
  Sample_NumUnit :: "string \<rightharpoonup> string list"

record Profile =
  Profile_SampleType :: "ValueType list"
  Profile_Sample :: "Sample list"
  Profile_Mapping :: "Mapping list"
  Profile_Location :: "Location list"
  Profile_Function :: "Function list"
  Profile_Comments :: "string list"

text \<open>\<^verbatim>\<open>&pprofile.Profile{}\<close>: every slice is nil.\<close>

definition empty_Profile :: Profile where
  "empty_Profile =
     \<lparr>Profile_SampleType = [], Profile_Sample = [], Profile_Mapping = [],
      Profile_Location = [], Profile_Function = [], Profile_Comments = []\<rparr>"

subsection \<open>goroutineDebug2ToPprof: building the graph\<close>

text \<open>
  The variables the two loops of \<^verbatim>\<open>goroutineDebug2ToPprof\<close> update: the two identifier
  counters and the profile \<^verbatim>\<open>p\<close> (the field \<open>pp\<close>).
\<close>

record builder =
  functionID :: uint64
  locationID :: uint64
  pp :: Profile

text \<open>
  The inner loop \<^verbatim>\<open>for _, call := range g.Stack\<close>, one equation per iteration. The last
  statement of the body is
  \<^verbatim>\<open>sample.Location = append([]*pprofile.Location{location}, sample.Location...)\<close>:
  the new location goes in front of those already there.
\<close>

fun stack_loop :: "Mapping \<Rightarrow> Frame list \<Rightarrow> builder \<Rightarrow> Sample \<Rightarrow> builder \<times> Sample" where
  "stack_loop m [] b sample = (b, sample)"
| "stack_loop m (call # calls) b sample =
     (let function = \<lparr>Function_ID = functionID b, Function_Name = Func call,
                       Function_Filename = File call\<rparr>;
          p1 = (pp b)\<lparr>Profile_Function := Profile_Function (pp b) @ [function]\<rparr>;
          functionID1 = functionID b + 1;
          location = \<lparr>Location_ID = locationID b, Location_Mapping = m,
                       Location_Line = [\<lparr>Line_Function = function,
                                         Line_Line = word_of_int (Line call)\<rparr>]\<rparr>;
          p2 = p1\<lparr>Profile_Location := Profile_Location p1 @ [location]\<rparr>;
          locationID1 = locationID b + 1;
          sample1 = sample\<lparr>Sample_Location := [location] @ Sample_Location sample\<rparr>
      in stack_loop m calls
           (b\<lparr>functionID := functionID1, locationID := locationID1, pp := p2\<rparr>) sample1)"

text \<open>The frame appended to a stack whose dump was truncated.\<close>

definition elided_Frame :: Frame where
  "elided_Frame = \<lparr>Func = ''...additional frames elided...'', File = '''', Line = 0\<rparr>"

text \<open>The sample as it is created for a goroutine, before the inner loop.\<close>

definition new_Sample :: "Goroutine \<Rightarrow> Sample" where
  "new_Sample g =
     \<lparr>Sample_Location = [],
      Sample_Value = [Duration_Nanoseconds (Wait g)],
      Sample_Label = [''state'' \<mapsto> [State g]],
      Sample_NumLabel = [''goid'' \<mapsto> [ID g]],
      Sample_NumUnit = [''goid'' \<mapsto> [''id'']]\<rparr>"

text \<open>
  The outer loop \<^verbatim>\<open>for _, g := range goroutines\<close>. The conversion \<^verbatim>\<open>int64(g.ID)\<close> in
  \<open>new_Sample\<close> keeps the 64 bits of the identifier.
\<close>

fun goroutines_loop :: "Mapping \<Rightarrow> Goroutine list \<Rightarrow> builder \<Rightarrow> builder" where
  "goroutines_loop m [] b = b"
| "goroutines_loop m (g # gs) b =
     (let sample = new_Sample g;
          stack = (if FramesElided g then Stack g @ [elided_Frame] else Stack g);
          (b1, sample1) = stack_loop m stack b sample;
          p1 = (pp b1)\<lparr>Profile_Sample := Profile_Sample (pp b1) @ [sample1]\<rparr>
      in goroutines_loop m gs (b1\<lparr>pp := p1\<rparr>))"

text \<open>
  \<^verbatim>\<open>if errs != nil { for _, err := range errs.Errors { ... } }\<close>: the parser's second
  result is a pointer to a struct holding a slice of errors, \<open>None\<close> when it is nil.
\<close>

definition add_Comments :: "error list option \<Rightarrow> Profile \<Rightarrow> Profile" where
  "add_Comments errs q =
     (case errs of
        None \<Rightarrow> q
      | Some es \<Rightarrow>
          foldl (\<lambda>q err. q\<lparr>Profile_Comments := Profile_Comments q @ [''error: '' @ error_Error err]\<rparr>)
            q es)"

text \<open>
  The profile \<^verbatim>\<open>p\<close> as it stands when \<^verbatim>\<open>goroutineDebug2ToPprof\<close> reaches
  \<^verbatim>\<open>p.CheckValid()\<close>, from the two results of \<^verbatim>\<open>stackparse.Parse\<close>.
\<close>

definition the_Mapping :: Mapping where
  "the_Mapping = \<lparr>Mapping_ID = 1, Mapping_HasFunctions = True\<rparr>"

definition build_Profile :: "Goroutine list \<Rightarrow> error list option \<Rightarrow> Profile" where
  "build_Profile goroutines errs =
     (let m = the_Mapping;
          p0 = empty_Profile\<lparr>Profile_Mapping := [m],
                 Profile_SampleType :=
                   [\<lparr>ValueType_Type = ''waitduration'', ValueType_Unit = ''nanoseconds''\<rparr>]\<rparr>;
          b = goroutines_loop m goroutines \<lparr>functionID = 1, locationID = 1, pp = p0\<rparr>
      in add_Comments errs (pp b))"

text \<open>
  The whole function. \<^verbatim>\<open>stackparse.Parse\<close>, \<^verbatim>\<open>(*Profile).CheckValid\<close> and
  \<^verbatim>\<open>(*Profile).Write\<close> belong to other packages and are parameters: \<open>Parse\<close>
  reads the text of \<^verbatim>\<open>r\<close>, \<open>CheckValid\<close> returns its error, \<open>Write\<close> returns its error
  and what \<^verbatim>\<open>w\<close> holds afterwards. The result is the error returned and the content of
  \<^verbatim>\<open>w\<close>. \<^verbatim>\<open>fmt.Errorf("marshalGoroutineDebug2Profile: %s", err)\<close> builds a new error
  from the message of \<^verbatim>\<open>err\<close>.
\<close>

definition goroutineDebug2ToPprof ::
  "(bytes \<Rightarrow> Goroutine list \<times> error list option) \<Rightarrow> (Profile \<Rightarrow> error option) \<Rightarrow>
   (Profile \<Rightarrow> bytes \<Rightarrow> error option \<times> bytes) \<Rightarrow> bytes \<Rightarrow> bytes \<Rightarrow> error option \<times> bytes" where
  "goroutineDebug2ToPprof Parse CheckValid Write r w =
     (let (goroutines, errs) = Parse r;
          q = build_Profile goroutines errs
      in case CheckValid q of
           Some err \<Rightarrow> (Some (errors_New (''marshalGoroutineDebug2Profile: '' @ error_Error err)), w)
         | None \<Rightarrow>
             (case Write q w of
                (Some err, w1) \<Rightarrow>
                  (Some (errors_New (''marshalGoroutineDebug2Profile: '' @ error_Error err)), w1)
              | (None, w1) \<Rightarrow> (None, w1)))"

subsection \<open>The collection strategies\<close>

text \<open>
  What a strategy changes: the state \<open>'rt\<close> of the Go runtime (clock, capture tables,
  the running CPU profile) and the calls of
  \<^verbatim>\<open>cfg.statsd.Timing(name, value, tags, rate)\<close> made so far, oldest first.
\<close>

type_synonym Timing = "string \<times> Duration \<times> string list \<times> nat"

record 'rt world =
  runtime :: 'rt
  Timings :: "Timing list"

text \<open>The fields of \<^verbatim>\<open>config\<close> that the strategies read.\<close>

record config =
  tags :: "string list"
  cpuDuration :: Duration

text \<open>
  The capture primitives and library functions that the strategies call, as parameters.
  Each acts on the runtime state. A primitive that is handed a buffer returns what the
  buffer holds afterwards together with its error. \<open>stopCPUProfile\<close> returns what the
  buffer given to \<open>startCPUProfile\<close> holds once the profile has stopped. \<open>now\<close> is
  \<^verbatim>\<open>time.Now().UTC()\<close>, \<open>Sub\<close> is \<^verbatim>\<open>Time.Sub\<close>, \<open>Sleep\<close> is \<^verbatim>\<open>time.Sleep\<close>, and
  \<open>met_report\<close> is \<^verbatim>\<open>p.met.report\<close>.
\<close>

record ('rt, 't) externals =
  now :: "'rt \<Rightarrow> 't \<times> 'rt"
  Sub :: "'t \<Rightarrow> 't \<Rightarrow> Duration"
  Sleep :: "Duration \<Rightarrow> 'rt \<Rightarrow> 'rt"
  writeHeapProfile :: "'rt \<Rightarrow> (bytes \<times> error option) \<times> 'rt"
  startCPUProfile :: "'rt \<Rightarrow> error option \<times> 'rt"
  stopCPUProfile :: "'rt \<Rightarrow> bytes \<times> 'rt"
  lookupProfile :: "string \<Rightarrow> int \<Rightarrow> 'rt \<Rightarrow> (bytes \<times> error option) \<times> 'rt"
  met_report :: "'t \<Rightarrow> 'rt \<Rightarrow> (bytes \<times> error option) \<times> 'rt"
  Parse :: "bytes \<Rightarrow> Goroutine list \<times> error list option"
  CheckValid :: "Profile \<Rightarrow> error option"
  Write :: "Profile \<Rightarrow> bytes \<Rightarrow> error option \<times> bytes"

text \<open>
  Every strategy ends with \<^verbatim>\<open>tags := append(cfg.tags, T.Tag())\<close> and
  \<^verbatim>\<open>cfg.statsd.Timing("datadog.profiler.go.collect_time", end.Sub(start), tags, 1)\<close>:
  the call recorded for profile type \<open>T\<close> and elapsed time \<open>d\<close>.
\<close>

definition Timing_call :: "config \<Rightarrow> ProfileType \<Rightarrow> Duration \<Rightarrow> Timing" where
  "Timing_call cfg T d =
     (''datadog.profiler.go.collect_time'', d, tags cfg @ [ProfileType_Tag T], 1)"

definition heapProfile ::
  "('rt, 't) externals \<Rightarrow> config \<Rightarrow> 'rt world \<Rightarrow> (error + profile) \<times> 'rt world" where
  "heapProfile X cfg s =
     (let (start, r1) = now X (runtime s);
          ((buf, err), r2) = writeHeapProfile X r1
      in case err of
           Some e \<Rightarrow> (Inl e, s\<lparr>runtime := r2\<rparr>)
         | None \<Rightarrow>
             (let (end, r3) = now X r2
              in (Inr \<lparr>profile_name = ProfileType_Filename HeapProfile, profile_data = buf\<rparr>,
                  s\<lparr>runtime := r3,
                    Timings := Timings s @ [Timing_call cfg HeapProfile (Sub X end start)]\<rparr>)))"

definition cpuProfile ::
  "('rt, 't) externals \<Rightarrow> config \<Rightarrow> 'rt world \<Rightarrow> (error + profile) \<times> 'rt world" where
  "cpuProfile X cfg s =
     (let (start, r1) = now X (runtime s);
          (err, r2) = startCPUProfile X r1
      in case err of
           Some e \<Rightarrow> (Inl e, s\<lparr>runtime := r2\<rparr>)
         | None \<Rightarrow>
             (let r3 = Sleep X (cpuDuration cfg) r2;
                  (buf, r4) = stopCPUProfile X r3;
                  (end, r5) = now X r4
              in (Inr \<lparr>profile_name = ProfileType_Filename CPUProfile, profile_data = buf\<rparr>,
                  s\<lparr>runtime := r5,
                    Timings := Timings s @ [Timing_call cfg CPUProfile (Sub X end start)]\<rparr>)))"

definition blockProfile ::
  "('rt, 't) externals \<Rightarrow> config \<Rightarrow> 'rt world \<Rightarrow> (error + profile) \<times> 'rt world" where
  "blockProfile X cfg s =
     (let (start, r1) = now X (runtime s);
          ((buf, err), r2) = lookupProfile X (ProfileType_String BlockProfile) 0 r1
      in case err of
           Some e \<Rightarrow> (Inl e, s\<lparr>runtime := r2\<rparr>)
         | None \<Rightarrow>
             (let (end, r3) = now X r2
              in (Inr \<lparr>profile_name = ProfileType_Filename BlockProfile, profile_data = buf\<rparr>,
                  s\<lparr>runtime := r3,
                    Timings := Timings s @ [Timing_call cfg BlockProfile (Sub X end start)]\<rparr>)))"

definition mutexProfile ::
  "('rt, 't) externals \<Rightarrow> config \<Rightarrow> 'rt world \<Rightarrow> (error + profile) \<times> 'rt world" where
  "mutexProfile X cfg s =
     (let (start, r1) = now X (runtime s);
          ((buf, err), r2) = lookupProfile X (ProfileType_String MutexProfile) 0 r1
      in case err of
           Some e \<Rightarrow> (Inl e, s\<lparr>runtime := r2\<rparr>)
         | None \<Rightarrow>
             (let (end, r3) = now X r2
              in (Inr \<lparr>profile_name = ProfileType_Filename MutexProfile, profile_data = buf\<rparr>,
                  s\<lparr>runtime := r3,
                    Timings := Timings s @ [Timing_call cfg MutexProfile (Sub X end start)]\<rparr>)))"

definition goroutineProfile ::
  "('rt, 't) externals \<Rightarrow> config \<Rightarrow> 'rt world \<Rightarrow> (error + profile) \<times> 'rt world" where
  "goroutineProfile X cfg s =
     (let (start, r1) = now X (runtime s);
          ((buf, err), r2) = lookupProfile X (ProfileType_String GoroutineProfile) 0 r1
      in case err of
           Some e \<Rightarrow> (Inl e, s\<lparr>runtime := r2\<rparr>)
         | None \<Rightarrow>
             (let (end, r3) = now X r2
              in (Inr \<lparr>profile_name = ProfileType_Filename GoroutineProfile, profile_data = buf\<rparr>,
                  s\<lparr>runtime := r3,
                    Timings := Timings s @ [Timing_call cfg GoroutineProfile (Sub X end start)]\<rparr>)))"

text \<open>
  \<^verbatim>\<open>goroutineWaitProfile\<close>: the dump at debug level 2 goes into the buffer \<^verbatim>\<open>text\<close>, the
  converter reads it and writes into the empty buffer \<^verbatim>\<open>pprof\<close>.
\<close>

definition goroutineWaitProfile ::
  "('rt, 't) externals \<Rightarrow> config \<Rightarrow> 'rt world \<Rightarrow> (error + profile) \<times> 'rt world" where
  "goroutineWaitProfile X cfg s =
     (let (start, r1) = now X (runtime s);
          ((text, err), r2) = lookupProfile X (ProfileType_String GoroutineProfile) 2 r1
      in case err of
           Some e \<Rightarrow> (Inl e, s\<lparr>runtime := r2\<rparr>)
         | None \<Rightarrow>
             (case goroutineDebug2ToPprof (Parse X) (CheckValid X) (Write X) text [] of
                (Some e, pprof) \<Rightarrow> (Inl e, s\<lparr>runtime := r2\<rparr>)
              | (None, pprof) \<Rightarrow>
                  (let (end, r3) = now X r2
                   in (Inr \<lparr>profile_name = ProfileType_Filename GoroutineWaitProfile,
                            profile_data = pprof\<rparr>,
                       s\<lparr>runtime := r3,
                         Timings := Timings s @
                           [Timing_call cfg GoroutineWaitProfile (Sub X end start)]\<rparr>))))"

text \<open>\<^verbatim>\<open>func (p *profiler) collectMetrics()\<close>, with \<^verbatim>\<open>p.cfg\<close> as the configuration.\<close>

definition collectMetrics ::
  "('rt, 't) externals \<Rightarrow> config \<Rightarrow> 'rt world \<Rightarrow> (error + profile) \<times> 'rt world" where
  "collectMetrics X cfg s =
     (let (start, r1) = now X (runtime s);
          ((buf, err), r2) = met_report X start r1
      in case err of
           Some e \<Rightarrow> (Inl e, s\<lparr>runtime := r2\<rparr>)
         | None \<Rightarrow>
             (let (end, r3) = now X r2
              in (Inr \<lparr>profile_name = ProfileType_Filename MetricsProfile, profile_data = buf\<rparr>,
                  s\<lparr>runtime := r3,
                    Timings := Timings s @ [Timing_call cfg MetricsProfile (Sub X end start)]\<rparr>)))"

subsection \<open>The dispatcher\<close>

text \<open>\<^verbatim>\<open>func (p *profiler) runProfile(t ProfileType)\<close>, the cases in the order of the switch.\<close>

definition runProfile ::
  "('rt, 't) externals \<Rightarrow> config \<Rightarrow> ProfileType \<Rightarrow> 'rt world \<Rightarrow> (error + profile) \<times> 'rt world" where
  "runProfile X cfg t s =
     (if t = HeapProfile then heapProfile X cfg s
      else if t = CPUProfile then cpuProfile X cfg s
      else if t = MutexProfile then mutexProfile X cfg s
      else if t = BlockProfile then blockProfile X cfg s
      else if t = GoroutineProfile then goroutineProfile X cfg s
      else if t = GoroutineWaitProfile then goroutineWaitProfile X cfg s
      else if t = MetricsProfile then collectMetrics X cfg s
      else (Inl (errors_New ''profile type not implemented''), s))"

section \<open>What the loops build\<close>

text \<open>
  Closed forms of the tables, used to state and prove the theorems. \<open>frames_of g\<close> is the
  stack the inner loop runs over, \<open>all_frames\<close> the frames of all goroutines in the order
  the loops visit them.
\<close>

definition frames_of :: "Goroutine \<Rightarrow> Frame list" where
  "frames_of g = (if FramesElided g then Stack g @ [elided_Frame] else Stack g)"

definition all_frames :: "Goroutine list \<Rightarrow> Frame list" where
  "all_frames gs = concat (map frames_of gs)"

text \<open>The entries one iteration of the inner loop creates, from the counters' values.\<close>

definition Function_of :: "uint64 \<Rightarrow> Frame \<Rightarrow> Function" where
  "Function_of i call =
     \<lparr>Function_ID = i, Function_Name = Func call, Function_Filename = File call\<rparr>"

definition Location_of :: "Mapping \<Rightarrow> uint64 \<Rightarrow> uint64 \<Rightarrow> Frame \<Rightarrow> Location" where
  "Location_of m i j call =
     \<lparr>Location_ID = j, Location_Mapping = m,
      Location_Line = [\<lparr>Line_Function = Function_of i call, Line_Line = word_of_int (Line call)\<rparr>]\<rparr>"

fun functions_from :: "uint64 \<Rightarrow> Frame list \<Rightarrow> Function list" where
  "functions_from i [] = []"
| "functions_from i (call # calls) = Function_of i call # functions_from (i + 1) calls"

fun locations_from :: "Mapping \<Rightarrow> uint64 \<Rightarrow> uint64 \<Rightarrow> Frame list \<Rightarrow> Location list" where
  "locations_from m i j [] = []"
| "locations_from m i j (call # calls) =
     Location_of m i j call # locations_from m (i + 1) (j + 1) calls"

fun samples_from :: "Mapping \<Rightarrow> uint64 \<Rightarrow> uint64 \<Rightarrow> Goroutine list \<Rightarrow> Sample list" where
  "samples_from m i j [] = []"
| "samples_from m i j (g # gs) =
     (new_Sample g)\<lparr>Sample_Location := rev (locations_from m i j (frames_of g))\<rparr> #
     samples_from m (i + of_nat (length (frames_of g))) (j + of_nat (length (frames_of g))) gs"

text \<open>What a location shows of its frame: function name, file and line of each of its lines.\<close>

definition Location_Frames :: "Location \<Rightarrow> (string \<times> string \<times> int64) list" where
  "Location_Frames l =
     map (\<lambda>ln. (Function_Name (Line_Function ln), Function_Filename (Line_Function ln), Line_Line ln))
       (Location_Line l)"

text \<open>
  Consistency of a profile graph: every sample has one value per sample type and only
  locations of the location table; the identifiers of each table are pairwise distinct and
  not 0; every location's mapping and the function of each of its lines are in their tables.
\<close>

definition graph_consistent :: "Profile \<Rightarrow> bool" where
  "graph_consistent q \<longleftrightarrow>
     (\<forall>s \<in> set (Profile_Sample q).
        length (Sample_Value s) = length (Profile_SampleType q) \<and>
        set (Sample_Location s) \<subseteq> set (Profile_Location q)) \<and>
     distinct (map Mapping_ID (Profile_Mapping q)) \<and>
     0 \<notin> set (map Mapping_ID (Profile_Mapping q)) \<and>
     distinct (map Function_ID (Profile_Function q)) \<and>
     0 \<notin> set (map Function_ID (Profile_Function q)) \<and>
     distinct (map Location_ID (Profile_Location q)) \<and>
     0 \<notin> set (map Location_ID (Profile_Location q)) \<and>
     (\<forall>l \<in> set (Profile_Location q).
        Location_Mapping l \<in> set (Profile_Mapping q) \<and>
        (\<forall>ln \<in> set (Location_Line l). Line_Function ln \<in> set (Profile_Function q)))"

text \<open>The seven profile types of the switch in \<^verbatim>\<open>runProfile\<close>, in the order of their values.\<close>

definition supported :: "ProfileType list" where
  "supported =
     [HeapProfile, CPUProfile, BlockProfile, MutexProfile, GoroutineProfile,
      GoroutineWaitProfile, MetricsProfile]"

text \<open>
  A strategy started in \<open>s\<close> with result \<open>r\<close> has called \<^verbatim>\<open>statsd.Timing\<close> once, for the
  profile type \<open>T\<close>, if it returned a profile, and not at all if it returned an error.
\<close>

definition metric_iff_success ::
  "config \<Rightarrow> ProfileType \<Rightarrow> 'rt world \<Rightarrow> (error + profile) \<times> 'rt world \<Rightarrow> bool" where
  "metric_iff_success cfg T s r =
     (case fst r of
        Inl e \<Rightarrow> Timings (snd r) = Timings s
      | Inr q \<Rightarrow> (\<exists>d. Timings (snd r) = Timings s @ [Timing_call cfg T d]))"

subsection \<open>Concrete inputs\<close>

text \<open>
  Two frames; the goroutine of the dump
  \<^verbatim>\<open>goroutine 7 [chan receive, 5 minutes]: main.worker(...) /a/b.go:10\<close>; a goroutine with
  a truncated stack of two frames; one that waits for nothing and has no frame; two
  goroutines with the same stack.
\<close>

definition frame_worker :: Frame where
  "frame_worker = \<lparr>Func = ''main.worker'', File = ''/a/b.go'', Line = 10\<rparr>"

definition frame_main :: Frame where
  "frame_main = \<lparr>Func = ''main.main'', File = ''/a/main.go'', Line = 5\<rparr>"

definition waiting_goroutine :: Goroutine where
  "waiting_goroutine =
     \<lparr>ID = 7, State = ''chan receive'', Wait = 5 * Minute, Stack = [frame_worker],
      FramesElided = False\<rparr>"

definition elided_goroutine :: Goroutine where
  "elided_goroutine =
     \<lparr>ID = 8, State = ''select'', Wait = 0, Stack = [frame_worker, frame_main],
      FramesElided = True\<rparr>"

definition idle_goroutine :: Goroutine where
  "idle_goroutine = \<lparr>ID = 9, State = ''running'', Wait = 0, Stack = [], FramesElided = False\<rparr>"

definition twin_goroutines :: "Goroutine list" where
  "twin_goroutines =
     [\<lparr>ID = 1, State = ''select'', Wait = Minute, Stack = [frame_worker, frame_main],
       FramesElided = False\<rparr>,
      \<lparr>ID = 2, State = ''select'', Wait = Minute, Stack = [frame_worker, frame_main],
       FramesElided = False\<rparr>]"

text \<open>
  Capture primitives for a runtime whose state is a clock: every call of \<open>now\<close> takes one
  tick, and each primitive returns fixed bytes and the error \<open>err\<close>.
\<close>

definition fake_externals :: "error option \<Rightarrow> (nat, nat) externals" where
  "fake_externals err =
     \<lparr>now = (\<lambda>r. (r, r + 1)),
      Sub = (\<lambda>t1 t0. of_nat (t1 - t0)),
      Sleep = (\<lambda>d r. r + unat d),
      writeHeapProfile = (\<lambda>r. (([1, 2, 3], err), r)),
      startCPUProfile = (\<lambda>r. (err, r)),
      stopCPUProfile = (\<lambda>r. ([4, 5], r)),
      lookupProfile = (\<lambda>name debug r. (([6], err), r)),
      met_report = (\<lambda>t r. (([7], err), r)),
      Parse = (\<lambda>text. ([], None)),
      CheckValid = (\<lambda>q. None),
      Write = (\<lambda>q w. (None, w @ [8]))\<rparr>"

text \<open>A validation that accepts exactly the consistent profiles.\<close>

definition checking_CheckValid :: "Profile \<Rightarrow> error option" where
  "checking_CheckValid q = (if graph_consistent q then None else Some (errors_New ''invalid profile''))"

definition fake_config :: config where
  "fake_config = \<lparr>tags = [''env:test''], cpuDuration = 0\<rparr>"

definition fake_world :: "nat world" where
  "fake_world = \<lparr>runtime = 100, Timings = []\<rparr>"

definition fresh_batch :: "nat batch" where
  "fresh_batch = \<lparr>batch_start = 1, batch_end = 0, batch_host = ''host'', batch_profiles = []\<rparr>"

definition heap_artifact :: profile where
  "heap_artifact = \<lparr>profile_name = ''heap.pprof'', profile_data = [1]\<rparr>"

definition cpu_artifact :: profile where
  "cpu_artifact = \<lparr>profile_name = ''cpu.pprof'', profile_data = [2]\<rparr>"

section \<open>Theorems\<close>

subsection \<open>The registry, the batch and the dispatcher\<close>

text \<open>
  Claim C5. The three projections return the fixed strings for the seven profile types
  (the tag is \<open>profile_type:\<close> followed by the name), and for every other value the name and
  the file name are \<open>unknown\<close> and the tag is \<open>profile_type:unknown\<close>.
\<close>

theorem ProfileType_projections:
  "map ProfileType_String supported =
     [''heap'', ''cpu'', ''block'', ''mutex'', ''goroutine'', ''goroutinewait'', ''metrics''] \<and>
   map ProfileType_Filename supported =
     [''heap.pprof'', ''cpu.pprof'', ''block.pprof'', ''mutex.pprof'', ''goroutines.pprof'',
      ''goroutineswait.pprof'', ''metrics.json''] \<and>
   map ProfileType_Tag supported =
     [''profile_type:heap'', ''profile_type:cpu'', ''profile_type:block'', ''profile_type:mutex'',
      ''profile_type:goroutine'', ''profile_type:goroutinewait'', ''profile_type:metrics''] \<and>
   ProfileType_Tag t = ''profile_type:'' @ ProfileType_String t \<and>
   (t \<notin> set supported \<longrightarrow>
      ProfileType_String t = ''unknown'' \<and> ProfileType_Filename t = ''unknown'' \<and>
      ProfileType_Tag t = ''profile_type:unknown'')"
  by (simp add: supported_def ProfileType_String_def ProfileType_Filename_def ProfileType_Tag_def
      ProfileType_defs)

text \<open>The values 7 and -1 are outside the seven types.\<close>

theorem ProfileType_projections_witness:
  "(7::int) \<notin> set supported \<and> ProfileType_String 7 = ''unknown'' \<and>
   ProfileType_Filename 7 = ''unknown'' \<and> ProfileType_Tag 7 = ''profile_type:unknown'' \<and>
   (-1::int) \<notin> set supported \<and> ProfileType_String (-1) = ''unknown'' \<and>
   ProfileType_Filename (-1) = ''unknown'' \<and> ProfileType_Tag (-1) = ''profile_type:unknown''"
proof -
  have out: "(7::int) \<notin> set supported" "(-1::int) \<notin> set supported"
    by (simp_all add: supported_def ProfileType_defs)
  with ProfileType_projections [of 7] ProfileType_projections [of "-1"] show ?thesis
    by blast
qed

lemma foldl_addProfile:
  "foldl addProfile b qs = b\<lparr>batch_profiles := batch_profiles b @ qs\<rparr>"
proof (induction qs arbitrary: b)
  case Nil
  show ?case by simp
next
  case (Cons q qs)
  have step: "addProfile b q = b\<lparr>batch_profiles := batch_profiles b @ [q]\<rparr>"
    by (simp add: addProfile_def)
  have "foldl addProfile b (q # qs) = foldl addProfile (addProfile b q) qs"
    by simp
  also have "\<dots> = (addProfile b q)\<lparr>batch_profiles := batch_profiles (addProfile b q) @ qs\<rparr>"
    by (rule Cons.IH)
  also have "\<dots> = b\<lparr>batch_profiles := batch_profiles b @ q # qs\<rparr>"
    unfolding step by simp
  finally show ?case .
qed

text \<open>
  Claim C8. Calling \<open>addProfile\<close> with the profiles \<open>qs\<close>, one call after the other, leaves
  the profiles the batch had, followed by \<open>qs\<close> in call order; the end timestamp, the start
  timestamp and the host stay as they were. On a batch without profiles the sequence
  afterwards is \<open>qs\<close>, of length \<open>length qs\<close>.
\<close>

theorem addProfile_sequence:
  "batch_profiles (foldl addProfile b qs) = batch_profiles b @ qs \<and>
   length (batch_profiles (foldl addProfile b qs)) = length (batch_profiles b) + length qs \<and>
   batch_end (foldl addProfile b qs) = batch_end b \<and>
   batch_start (foldl addProfile b qs) = batch_start b \<and>
   batch_host (foldl addProfile b qs) = batch_host b \<and>
   (batch_profiles b = [] \<longrightarrow>
      batch_profiles (foldl addProfile b qs) = qs \<and>
      length (batch_profiles (foldl addProfile b qs)) = length qs)"
  by (simp add: foldl_addProfile)

text \<open>Two calls on a fresh batch whose end timestamp is the zero time.\<close>

theorem addProfile_sequence_witness:
  "batch_profiles fresh_batch = [] \<and>
   batch_profiles (foldl addProfile fresh_batch [heap_artifact, cpu_artifact]) =
     [heap_artifact, cpu_artifact] \<and>
   length (batch_profiles (foldl addProfile fresh_batch [heap_artifact, cpu_artifact])) = 2 \<and>
   batch_end (foldl addProfile fresh_batch [heap_artifact, cpu_artifact]) = 0"
  using addProfile_sequence [of fresh_batch "[heap_artifact, cpu_artifact]"]
  by (simp add: fresh_batch_def)

text \<open>
  Claim C6. For a profile type outside the seven, \<open>runProfile\<close> returns the error
  \<^verbatim>\<open>profile type not implemented\<close> and leaves the runtime and the recorded timings as they
  were; for each of the seven it is the matching strategy, result and effects.
\<close>

theorem runProfile_dispatch:
  "(t \<notin> set supported \<longrightarrow>
      runProfile X cfg t s = (Inl (errors_New ''profile type not implemented''), s)) \<and>
   runProfile X cfg HeapProfile s = heapProfile X cfg s \<and>
   runProfile X cfg CPUProfile s = cpuProfile X cfg s \<and>
   runProfile X cfg MutexProfile s = mutexProfile X cfg s \<and>
   runProfile X cfg BlockProfile s = blockProfile X cfg s \<and>
   runProfile X cfg GoroutineProfile s = goroutineProfile X cfg s \<and>
   runProfile X cfg GoroutineWaitProfile s = goroutineWaitProfile X cfg s \<and>
   runProfile X cfg MetricsProfile s = collectMetrics X cfg s"
  by (simp add: runProfile_def supported_def ProfileType_defs)

text \<open>The value 7 is dispatched to no strategy.\<close>

theorem runProfile_dispatch_witness:
  "(7::int) \<notin> set supported \<and>
   runProfile (fake_externals None) fake_config 7 fake_world =
     (Inl (errors_New ''profile type not implemented''), fake_world) \<and>
   Timings (snd (runProfile (fake_externals None) fake_config 7 fake_world)) = []"
proof -
  have out: "(7::int) \<notin> set supported"
    by (simp add: supported_def ProfileType_defs)
  with runProfile_dispatch [of 7 "fake_externals None" fake_config fake_world] show ?thesis
    by (simp add: fake_world_def)
qed

subsection \<open>The collection strategies\<close>

text \<open>
  Claim C7. In each of the seven strategies an error \<open>e\<close> of the capture primitive (called
  in the runtime state that \<^verbatim>\<open>start := now()\<close> leaves) is the strategy's result, with no
  profile; and each strategy records its timing exactly when it returns a profile: no
  call of \<^verbatim>\<open>statsd.Timing\<close> when it returns an error, one call, for its profile type,
  when it succeeds.
\<close>

theorem strategies_surface_errors:
  "(snd (fst (writeHeapProfile X (snd (now X (runtime s))))) = Some e \<longrightarrow>
      fst (heapProfile X cfg s) = Inl e) \<and>
   (fst (startCPUProfile X (snd (now X (runtime s)))) = Some e \<longrightarrow>
      fst (cpuProfile X cfg s) = Inl e) \<and>
   (snd (fst (lookupProfile X (ProfileType_String BlockProfile) 0 (snd (now X (runtime s))))) = Some e \<longrightarrow>
      fst (blockProfile X cfg s) = Inl e) \<and>
   (snd (fst (lookupProfile X (ProfileType_String MutexProfile) 0 (snd (now X (runtime s))))) = Some e \<longrightarrow>
      fst (mutexProfile X cfg s) = Inl e) \<and>
   (snd (fst (lookupProfile X (ProfileType_String GoroutineProfile) 0 (snd (now X (runtime s))))) = Some e \<longrightarrow>
      fst (goroutineProfile X cfg s) = Inl e) \<and>
   (snd (fst (lookupProfile X (ProfileType_String GoroutineProfile) 2 (snd (now X (runtime s))))) = Some e \<longrightarrow>
      fst (goroutineWaitProfile X cfg s) = Inl e) \<and>
   (snd (fst (met_report X (fst (now X (runtime s))) (snd (now X (runtime s))))) = Some e \<longrightarrow>
      fst (collectMetrics X cfg s) = Inl e) \<and>
   metric_iff_success cfg HeapProfile s (heapProfile X cfg s) \<and>
   metric_iff_success cfg CPUProfile s (cpuProfile X cfg s) \<and>
   metric_iff_success cfg BlockProfile s (blockProfile X cfg s) \<and>
   metric_iff_success cfg MutexProfile s (mutexProfile X cfg s) \<and>
   metric_iff_success cfg GoroutineProfile s (goroutineProfile X cfg s) \<and>
   metric_iff_success cfg GoroutineWaitProfile s (goroutineWaitProfile X cfg s) \<and>
   metric_iff_success cfg MetricsProfile s (collectMetrics X cfg s)"
proof -
  have e1: "snd (fst (writeHeapProfile X (snd (now X (runtime s))))) = Some e \<longrightarrow>
      fst (heapProfile X cfg s) = Inl e"
    by (simp add: heapProfile_def Let_def split: prod.splits option.splits)
  have e2: "fst (startCPUProfile X (snd (now X (runtime s)))) = Some e \<longrightarrow>
      fst (cpuProfile X cfg s) = Inl e"
    by (simp add: cpuProfile_def Let_def split: prod.splits option.splits)
  have e3: "snd (fst (lookupProfile X (ProfileType_String BlockProfile) 0 (snd (now X (runtime s))))) = Some e \<longrightarrow>
      fst (blockProfile X cfg s) = Inl e"
    by (simp add: blockProfile_def Let_def split: prod.splits option.splits)
  have e4: "snd (fst (lookupProfile X (ProfileType_String MutexProfile) 0 (snd (now X (runtime s))))) = Some e \<longrightarrow>
      fst (mutexProfile X cfg s) = Inl e"
    by (simp add: mutexProfile_def Let_def split: prod.splits option.splits)
  have e5: "snd (fst (lookupProfile X (ProfileType_String GoroutineProfile) 0 (snd (now X (runtime s))))) = Some e \<longrightarrow>
      fst (goroutineProfile X cfg s) = Inl e"
    by (simp add: goroutineProfile_def Let_def split: prod.splits option.splits)
  have e6: "snd (fst (lookupProfile X (ProfileType_String GoroutineProfile) 2 (snd (now X (runtime s))))) = Some e \<longrightarrow>
      fst (goroutineWaitProfile X cfg s) = Inl e"
    by (simp add: goroutineWaitProfile_def Let_def split: prod.splits option.splits)
  have e7: "snd (fst (met_report X (fst (now X (runtime s))) (snd (now X (runtime s))))) = Some e \<longrightarrow>
      fst (collectMetrics X cfg s) = Inl e"
    by (simp add: collectMetrics_def Let_def split: prod.splits option.splits)
  have m1: "metric_iff_success cfg HeapProfile s (heapProfile X cfg s)"
    by (auto simp add: metric_iff_success_def heapProfile_def Let_def
        split: prod.splits option.splits)
  have m2: "metric_iff_success cfg CPUProfile s (cpuProfile X cfg s)"
    by (auto simp add: metric_iff_success_def cpuProfile_def Let_def
        split: prod.splits option.splits)
  have m3: "metric_iff_success cfg BlockProfile s (blockProfile X cfg s)"
    by (auto simp add: metric_iff_success_def blockProfile_def Let_def
        split: prod.splits option.splits)
  have m4: "metric_iff_success cfg MutexProfile s (mutexProfile X cfg s)"
    by (auto simp add: metric_iff_success_def mutexProfile_def Let_def
        split: prod.splits option.splits)
  have m5: "metric_iff_success cfg GoroutineProfile s (goroutineProfile X cfg s)"
    by (auto simp add: metric_iff_success_def goroutineProfile_def Let_def
        split: prod.splits option.splits)
  have m6: "metric_iff_success cfg GoroutineWaitProfile s (goroutineWaitProfile X cfg s)"
    by (auto simp add: metric_iff_success_def goroutineWaitProfile_def Let_def
        split: prod.splits option.splits)
  have m7: "metric_iff_success cfg MetricsProfile s (collectMetrics X cfg s)"
    by (auto simp add: metric_iff_success_def collectMetrics_def Let_def
        split: prod.splits option.splits)
  from e1 e2 e3 e4 e5 e6 e7 m1 m2 m3 m4 m5 m6 m7 show ?thesis
    by blast
qed

text \<open>
  A heap snapshot and a table lookup that fail with \<^verbatim>\<open>profile not found\<close>: the error comes
  back and nothing is recorded. A heap snapshot that succeeds: one timing is recorded.
\<close>

theorem strategies_surface_errors_witness:
  "snd (fst (writeHeapProfile (fake_externals (Some (errors_New ''profile not found'')))
      (snd (now (fake_externals (Some (errors_New ''profile not found''))) (runtime fake_world))))) =
     Some (errors_New ''profile not found'') \<and>
   fst (heapProfile (fake_externals (Some (errors_New ''profile not found''))) fake_config fake_world) =
     Inl (errors_New ''profile not found'') \<and>
   fst (goroutineWaitProfile (fake_externals (Some (errors_New ''profile not found''))) fake_config
     fake_world) = Inl (errors_New ''profile not found'') \<and>
   Timings (snd (heapProfile (fake_externals (Some (errors_New ''profile not found''))) fake_config
     fake_world)) = [] \<and>
   Timings (snd (goroutineWaitProfile (fake_externals (Some (errors_New ''profile not found'')))
     fake_config fake_world)) = [] \<and>
   heapProfile (fake_externals None) fake_config fake_world =
     (Inr \<lparr>profile_name = ''heap.pprof'', profile_data = [1, 2, 3]\<rparr>,
      \<lparr>runtime = 102,
       Timings = [(''datadog.profiler.go.collect_time'', 1, [''env:test'', ''profile_type:heap''], 1)]\<rparr>)"
proof -
  let ?X = "fake_externals (Some (errors_New ''profile not found''))"
  have h: "snd (fst (writeHeapProfile ?X (snd (now ?X (runtime fake_world))))) =
      Some (errors_New ''profile not found'')"
    by (simp add: fake_externals_def)
  have l: "snd (fst (lookupProfile ?X (ProfileType_String GoroutineProfile) 2
      (snd (now ?X (runtime fake_world))))) = Some (errors_New ''profile not found'')"
    by (simp add: fake_externals_def)
  have t: "Timings fake_world = []"
    by (simp add: fake_world_def)
  from strategies_surface_errors [of ?X fake_world "errors_New ''profile not found''" fake_config] h l
  have r: "fst (heapProfile ?X fake_config fake_world) = Inl (errors_New ''profile not found'')"
    "fst (goroutineWaitProfile ?X fake_config fake_world) = Inl (errors_New ''profile not found'')"
    "metric_iff_success fake_config HeapProfile fake_world (heapProfile ?X fake_config fake_world)"
    "metric_iff_success fake_config GoroutineWaitProfile fake_world
       (goroutineWaitProfile ?X fake_config fake_world)"
    by blast+
  from r t have "Timings (snd (heapProfile ?X fake_config fake_world)) = []"
    "Timings (snd (goroutineWaitProfile ?X fake_config fake_world)) = []"
    by (simp_all add: metric_iff_success_def)
  moreover have "heapProfile (fake_externals None) fake_config fake_world =
     (Inr \<lparr>profile_name = ''heap.pprof'', profile_data = [1, 2, 3]\<rparr>,
      \<lparr>runtime = 102,
       Timings = [(''datadog.profiler.go.collect_time'', 1, [''env:test'', ''profile_type:heap''], 1)]\<rparr>)"
    by (simp add: heapProfile_def fake_externals_def fake_config_def fake_world_def Timing_call_def
        ProfileType_Tag_def ProfileType_String_def ProfileType_Filename_def HeapProfile_def)
  ultimately show ?thesis using h r by blast
qed

subsection \<open>The two loops in closed form\<close>

text \<open>
  The inner loop run on \<open>calls\<close> adds \<open>length calls\<close> to both counters, appends one
  function and one location per frame to the tables, and puts the new locations, last
  frame first, in front of the sample's locations.
\<close>

lemma stack_loop_eq:
  "stack_loop m calls b sample =
     (b\<lparr>functionID := functionID b + of_nat (length calls),
        locationID := locationID b + of_nat (length calls),
        pp := (pp b)\<lparr>Profile_Function := Profile_Function (pp b) @ functions_from (functionID b) calls,
                     Profile_Location := Profile_Location (pp b) @
                        locations_from m (functionID b) (locationID b) calls\<rparr>\<rparr>,
      sample\<lparr>Sample_Location :=
        rev (locations_from m (functionID b) (locationID b) calls) @ Sample_Location sample\<rparr>)"
proof (induction calls arbitrary: b sample)
  case Nil
  show ?case by simp
next
  case (Cons call calls)
  show ?case
    by (simp add: Cons.IH Let_def Function_of_def Location_of_def add.assoc)
qed

lemma functions_from_append:
  "functions_from i (xs @ ys) = functions_from i xs @ functions_from (i + of_nat (length xs)) ys"
  by (induction xs arbitrary: i) (simp_all add: add.assoc add.commute)

lemma locations_from_append:
  "locations_from m i j (xs @ ys) =
     locations_from m i j xs @
     locations_from m (i + of_nat (length xs)) (j + of_nat (length xs)) ys"
  by (induction xs arbitrary: i j) (simp_all add: add.assoc add.commute)

lemma goroutines_loop_eq:
  "goroutines_loop m gs b =
     b\<lparr>functionID := functionID b + of_nat (length (all_frames gs)),
       locationID := locationID b + of_nat (length (all_frames gs)),
       pp := (pp b)\<lparr>Profile_Function := Profile_Function (pp b) @
                       functions_from (functionID b) (all_frames gs),
                    Profile_Location := Profile_Location (pp b) @
                       locations_from m (functionID b) (locationID b) (all_frames gs),
                    Profile_Sample := Profile_Sample (pp b) @
                       samples_from m (functionID b) (locationID b) gs\<rparr>\<rparr>"
proof (induction gs arbitrary: b)
  case Nil
  show ?case by (simp add: all_frames_def)
next
  case (Cons g gs)
  have fr: "(if FramesElided g then Stack g @ [elided_Frame] else Stack g) = frames_of g"
    by (simp add: frames_of_def)
  have af: "all_frames (g # gs) = frames_of g @ all_frames gs"
    by (simp add: all_frames_def)
  show ?case
    unfolding goroutines_loop.simps Let_def fr stack_loop_eq prod.case Cons.IH af
    by (simp add: functions_from_append locations_from_append add.assoc new_Sample_def)
qed

lemma length_functions_from [simp]: "length (functions_from i calls) = length calls"
  by (induction calls arbitrary: i) simp_all

lemma length_locations_from [simp]: "length (locations_from m i j calls) = length calls"
  by (induction calls arbitrary: i j) simp_all

lemma functions_from_nth:
  "k < length calls \<Longrightarrow> functions_from i calls ! k = Function_of (i + of_nat k) (calls ! k)"
proof (induction calls arbitrary: i k)
  case Nil
  then show ?case by simp
next
  case (Cons call calls)
  show ?case
  proof (cases k)
    case 0
    then show ?thesis by simp
  next
    case (Suc k')
    with Cons.prems have "k' < length calls" by simp
    from Cons.IH [OF this, of "i + 1"] Suc show ?thesis
      by (simp add: ac_simps)
  qed
qed

lemma locations_from_nth:
  "k < length calls \<Longrightarrow>
   locations_from m i j calls ! k = Location_of m (i + of_nat k) (j + of_nat k) (calls ! k)"
proof (induction calls arbitrary: i j k)
  case Nil
  then show ?case by simp
next
  case (Cons call calls)
  show ?case
  proof (cases k)
    case 0
    then show ?thesis by simp
  next
    case (Suc k')
    with Cons.prems have "k' < length calls" by simp
    from Cons.IH [OF this, of "i + 1" "j + 1"] Suc show ?thesis
      by (simp add: ac_simps)
  qed
qed

lemma length_samples_from [simp]: "length (samples_from m i j gs) = length gs"
  by (induction gs arbitrary: i j) simp_all

lemma samples_from_nth:
  "k < length gs \<Longrightarrow>
   samples_from m i j gs ! k =
     (new_Sample (gs ! k))\<lparr>Sample_Location :=
        rev (locations_from m (i + of_nat (length (all_frames (take k gs))))
               (j + of_nat (length (all_frames (take k gs)))) (frames_of (gs ! k)))\<rparr>"
proof (induction gs arbitrary: i j k)
  case Nil
  then show ?case by simp
next
  case (Cons g gs)
  show ?case
  proof (cases k)
    case 0
    then show ?thesis by (simp add: all_frames_def)
  next
    case (Suc k')
    with Cons.prems have "k' < length gs" by simp
    from Cons.IH [OF this] Suc show ?thesis
      by (simp add: all_frames_def add.assoc)
  qed
qed

lemma add_Comments_foldl:
  "foldl (\<lambda>q err. q\<lparr>Profile_Comments := Profile_Comments q @ [f err]\<rparr>) q es =
   q\<lparr>Profile_Comments := Profile_Comments q @ map f es\<rparr>"
  by (induction es arbitrary: q) simp_all

lemma add_Comments_eq:
  "add_Comments errs q =
     q\<lparr>Profile_Comments := Profile_Comments q @
         (case errs of None \<Rightarrow> [] | Some es \<Rightarrow> map (\<lambda>err. ''error: '' @ error_Error err) es)\<rparr>"
  by (cases errs) (simp_all add: add_Comments_def add_Comments_foldl)

lemma build_Profile_eq:
  "build_Profile gs errs =
     \<lparr>Profile_SampleType = [\<lparr>ValueType_Type = ''waitduration'', ValueType_Unit = ''nanoseconds''\<rparr>],
      Profile_Sample = samples_from the_Mapping 1 1 gs,
      Profile_Mapping = [the_Mapping],
      Profile_Location = locations_from the_Mapping 1 1 (all_frames gs),
      Profile_Function = functions_from 1 (all_frames gs),
      Profile_Comments =
        (case errs of None \<Rightarrow> [] | Some es \<Rightarrow> map (\<lambda>err. ''error: '' @ error_Error err) es)\<rparr>"
  by (simp add: build_Profile_def Let_def goroutines_loop_eq add_Comments_eq empty_Profile_def)

lemma sample_nth:
  "k < length gs \<Longrightarrow>
   Profile_Sample (build_Profile gs errs) ! k =
     (new_Sample (gs ! k))\<lparr>Sample_Location :=
        rev (locations_from the_Mapping (1 + of_nat (length (all_frames (take k gs))))
               (1 + of_nat (length (all_frames (take k gs)))) (frames_of (gs ! k)))\<rparr>"
  by (simp add: build_Profile_eq samples_from_nth)

lemma Location_Frames_of [simp]:
  "Location_Frames (Location_of m i j call) = [(Func call, File call, word_of_int (Line call))]"
  by (simp add: Location_Frames_def Location_of_def Function_of_def)

lemma map_Location_Frames_from:
  "map Location_Frames (locations_from m i j calls) =
     map (\<lambda>call. [(Func call, File call, word_of_int (Line call))]) calls"
  by (induction calls arbitrary: i j) simp_all

lemma Function_ID_from:
  "map Function_ID (functions_from i calls) = map (\<lambda>k. i + of_nat k) [0..<length calls]"
  by (rule nth_equalityI) (simp_all add: functions_from_nth Function_of_def)

lemma Location_ID_from:
  "map Location_ID (locations_from m i j calls) = map (\<lambda>k. j + of_nat k) [0..<length calls]"
  by (rule nth_equalityI) (simp_all add: locations_from_nth Location_of_def)

lemma Function_Name_from: "map Function_Name (functions_from i calls) = map Func calls"
  by (induction calls arbitrary: i) (simp_all add: Function_of_def)

lemma ids_from_one: "map (\<lambda>k. (1::uint64) + of_nat k) [0..<n] = map (\<lambda>k. of_nat (Suc k)) [0..<n]"
  by (simp add: ac_simps)

lemma unat_ids:
  assumes "n < 2 ^ 64"
  shows "map unat (map (\<lambda>k. of_nat (Suc k) :: uint64) [0..<n]) = map Suc [0..<n]"
proof -
  have "unat (of_nat (Suc k) :: uint64) = Suc k" if "k < n" for k
  proof -
    from that assms have "Suc k < 2 ^ 64" by simp
    then show ?thesis by (simp add: unat_of_nat del: of_nat_Suc)
  qed
  then show ?thesis by simp
qed

lemma distinct_of_map: "distinct (map f xs) \<Longrightarrow> distinct xs"
  by (simp add: distinct_map)

lemma distinct_ids:
  assumes "n < 2 ^ 64"
  shows "distinct (map (\<lambda>k. of_nat (Suc k) :: uint64) [0..<n])"
proof -
  have "distinct (map unat (map (\<lambda>k. of_nat (Suc k) :: uint64) [0..<n]))"
    unfolding unat_ids [OF assms] by (simp add: distinct_map)
  then show ?thesis by (rule distinct_of_map)
qed

lemma increasing_ids:
  assumes "n < 2 ^ 64"
  shows "sorted_wrt (<) (map (\<lambda>k. of_nat (Suc k) :: uint64) [0..<n])"
proof -
  have "sorted_wrt (<) (map unat (map (\<lambda>k. of_nat (Suc k) :: uint64) [0..<n]))"
    unfolding unat_ids [OF assms] by (simp add: sorted_wrt_map sorted_wrt_upt)
  then show ?thesis
    by (simp add: sorted_wrt_map word_less_nat_alt)
qed

lemma samples_from_consistent:
  "s \<in> set (samples_from m i j gs) \<Longrightarrow>
   length (Sample_Value s) = 1 \<and>
   set (Sample_Location s) \<subseteq> set (locations_from m i j (all_frames gs))"
proof (induction gs arbitrary: i j)
  case Nil
  then show ?case by simp
next
  case (Cons g gs)
  have af: "all_frames (g # gs) = frames_of g @ all_frames gs"
    by (simp add: all_frames_def)
  from Cons.prems consider
    (head) "s = (new_Sample g)\<lparr>Sample_Location := rev (locations_from m i j (frames_of g))\<rparr>"
    | (tail) "s \<in> set (samples_from m (i + of_nat (length (frames_of g)))
          (j + of_nat (length (frames_of g))) gs)"
    by auto
  then show ?case
  proof cases
    case head
    then show ?thesis
      by (simp add: af locations_from_append new_Sample_def)
  next
    case tail
    from Cons.IH [OF tail] show ?thesis
      by (auto simp add: af locations_from_append)
  qed
qed

lemma locations_from_consistent:
  "l \<in> set (locations_from m i j calls) \<Longrightarrow>
   Location_Mapping l = m \<and>
   (\<forall>ln \<in> set (Location_Line l). Line_Function ln \<in> set (functions_from i calls))"
proof (induction calls arbitrary: i j)
  case Nil
  then show ?case by simp
next
  case (Cons call calls)
  from Cons.prems consider (head) "l = Location_of m i j call"
    | (tail) "l \<in> set (locations_from m (i + 1) (j + 1) calls)"
    by auto
  then show ?case
  proof cases
    case head
    then show ?thesis by (simp add: Location_of_def)
  next
    case tail
    from Cons.IH [OF tail] show ?thesis by auto
  qed
qed

lemma nonzero_ids:
  assumes "n < 2 ^ 64"
  shows "0 \<notin> set (map (\<lambda>k. of_nat (Suc k) :: uint64) [0..<n])"
proof
  assume "0 \<in> set (map (\<lambda>k. of_nat (Suc k) :: uint64) [0..<n])"
  then have "unat (0 :: uint64) \<in> set (map unat (map (\<lambda>k. of_nat (Suc k) :: uint64) [0..<n]))"
    by (simp only: set_map) (rule imageI)
  then show False
    unfolding unat_ids [OF assms] by auto
qed

lemma build_Profile_consistent:
  assumes n: "length (all_frames gs) < 2 ^ 64"
  shows "graph_consistent (build_Profile gs errs)"
proof -
  let ?n = "length (all_frames gs)"
  let ?ids = "map (\<lambda>k. of_nat (Suc k) :: uint64) [0..<?n]"
  have f: "map Function_ID (functions_from 1 (all_frames gs)) = ?ids"
    by (simp only: Function_ID_from ids_from_one)
  have l: "map Location_ID (locations_from the_Mapping 1 1 (all_frames gs)) = ?ids"
    by (simp only: Location_ID_from ids_from_one)
  have s: "\<forall>s \<in> set (samples_from the_Mapping 1 1 gs).
      length (Sample_Value s) = 1 \<and>
      set (Sample_Location s) \<subseteq> set (locations_from the_Mapping 1 1 (all_frames gs))"
    using samples_from_consistent by blast
  have t: "\<forall>l \<in> set (locations_from the_Mapping 1 1 (all_frames gs)).
      Location_Mapping l = the_Mapping \<and>
      (\<forall>ln \<in> set (Location_Line l). Line_Function ln \<in> set (functions_from 1 (all_frames gs)))"
    using locations_from_consistent by blast
  from f l s t distinct_ids [OF n] nonzero_ids [OF n] show ?thesis
    unfolding graph_consistent_def build_Profile_eq
    by (simp add: the_Mapping_def)
qed

lemma sint_small:
  fixes w :: "64 word"
  assumes "unat w < 2 ^ 63"
  shows "sint w = int (unat w)"
proof -
  from assms have "int (unat w) < int (2 ^ 63)"
    by (rule iffD2 [OF of_nat_less_iff])
  then have u: "uint w < 2 ^ 63"
    by simp
  have "sint w = signed_take_bit (64 - Suc 0) (uint w)"
    using sint_uint [of w] by simp
  also have "\<dots> = uint w"
    using u by (intro signed_take_bit_int_eq_self) (simp_all add: order_trans [of _ 0])
  finally show ?thesis by simp
qed

subsection \<open>The samples\<close>

text \<open>
  Claim C3. The sample built for the \<open>k\<close>-th goroutine has exactly one value, the wait
  duration in nanoseconds, the label \<open>state\<close> with the one-element list of the goroutine's
  state, and the numeric label \<open>goid\<close> with the one-element list of the goroutine's
  identifier. The conversion \<^verbatim>\<open>int64(g.ID)\<close> keeps the 64 bits; read as a signed number
  the label is the identifier whenever that is below \<open>2 ^ 63\<close>.
\<close>

theorem sample_value_and_labels:
  "k < length gs \<Longrightarrow>
   Sample_Value (Profile_Sample (build_Profile gs errs) ! k) =
     [Duration_Nanoseconds (Wait (gs ! k))] \<and>
   Duration_Nanoseconds (Wait (gs ! k)) = Wait (gs ! k) \<and>
   Sample_Label (Profile_Sample (build_Profile gs errs) ! k) = [''state'' \<mapsto> [State (gs ! k)]] \<and>
   Sample_NumLabel (Profile_Sample (build_Profile gs errs) ! k) = [''goid'' \<mapsto> [ID (gs ! k)]] \<and>
   (unat (ID (gs ! k)) < 2 ^ 63 \<longrightarrow>
      map_option (map sint) (Sample_NumLabel (Profile_Sample (build_Profile gs errs) ! k) ''goid'') =
        Some [int (unat (ID (gs ! k)))])"
  by (simp add: sample_nth new_Sample_def Duration_Nanoseconds_def sint_small)

text \<open>Goroutine 7, in state \<open>chan receive\<close> for five minutes.\<close>

theorem sample_value_and_labels_witness:
  "(0::nat) < length [waiting_goroutine] \<and>
   unat (ID ([waiting_goroutine] ! 0)) < 2 ^ 63 \<and>
   Sample_Value (Profile_Sample (build_Profile [waiting_goroutine] None) ! 0) = [300000000000] \<and>
   Sample_Label (Profile_Sample (build_Profile [waiting_goroutine] None) ! 0) ''state'' =
     Some [''chan receive''] \<and>
   Sample_NumLabel (Profile_Sample (build_Profile [waiting_goroutine] None) ! 0) ''goid'' = Some [7] \<and>
   map_option (map sint)
     (Sample_NumLabel (Profile_Sample (build_Profile [waiting_goroutine] None) ! 0) ''goid'') =
     Some [7]"
  using sample_value_and_labels [of 0 "[waiting_goroutine]" None]
  by (simp add: waiting_goroutine_def Duration_Nanoseconds_def Minute_def)

text \<open>
  Claim C9. There is one sample per goroutine, in the order of the input: value, \<open>goid\<close>,
  \<open>state\<close> and number of locations of the samples are those of the goroutines, one after
  the other. Nothing is filtered: a goroutine with a zero wait gives a sample with value 0,
  and one with an empty stack that was not truncated gives a sample without locations.
\<close>

theorem one_sample_per_goroutine:
  "length (Profile_Sample (build_Profile gs errs)) = length gs \<and>
   map (\<lambda>s. (Sample_Value s, Sample_NumLabel s ''goid'', Sample_Label s ''state'',
              length (Sample_Location s)))
     (Profile_Sample (build_Profile gs errs)) =
   map (\<lambda>g. ([Duration_Nanoseconds (Wait g)], Some [ID g], Some [State g],
              length (Stack g) + (if FramesElided g then 1 else 0))) gs \<and>
   (\<forall>k < length gs. Wait (gs ! k) = 0 \<longrightarrow>
      Sample_Value (Profile_Sample (build_Profile gs errs) ! k) = [0]) \<and>
   (\<forall>k < length gs. Stack (gs ! k) = [] \<and> \<not> FramesElided (gs ! k) \<longrightarrow>
      Sample_Location (Profile_Sample (build_Profile gs errs) ! k) = [])"
proof -
  have len: "length (Profile_Sample (build_Profile gs errs)) = length gs"
    by (simp add: build_Profile_eq)
  have each: "map (\<lambda>s. (Sample_Value s, Sample_NumLabel s ''goid'', Sample_Label s ''state'',
              length (Sample_Location s)))
     (Profile_Sample (build_Profile gs errs)) =
   map (\<lambda>g. ([Duration_Nanoseconds (Wait g)], Some [ID g], Some [State g],
              length (Stack g) + (if FramesElided g then 1 else 0))) gs"
    by (rule nth_equalityI) (simp_all add: len sample_nth new_Sample_def frames_of_def)
  have zero: "Sample_Value (Profile_Sample (build_Profile gs errs) ! k) = [0]"
    if "k < length gs" "Wait (gs ! k) = 0" for k
    using that by (simp add: sample_nth new_Sample_def Duration_Nanoseconds_def)
  have empty: "Sample_Location (Profile_Sample (build_Profile gs errs) ! k) = []"
    if "k < length gs" "Stack (gs ! k) = []" "\<not> FramesElided (gs ! k)" for k
    using that by (simp add: sample_nth frames_of_def)
  from len each zero empty show ?thesis by blast
qed

text \<open>A goroutine with zero wait and no frame, followed by goroutine 7.\<close>

theorem one_sample_per_goroutine_witness:
  "length (Profile_Sample (build_Profile [idle_goroutine, waiting_goroutine] None)) = 2 \<and>
   map (\<lambda>s. (Sample_Value s, Sample_NumLabel s ''goid'', Sample_Label s ''state'',
              length (Sample_Location s)))
     (Profile_Sample (build_Profile [idle_goroutine, waiting_goroutine] None)) =
     [([0], Some [9], Some [''running''], 0),
      ([300000000000], Some [7], Some [''chan receive''], 1)] \<and>
   Sample_Value (Profile_Sample (build_Profile [idle_goroutine, waiting_goroutine] None) ! 0) = [0] \<and>
   Sample_Location (Profile_Sample (build_Profile [idle_goroutine, waiting_goroutine] None) ! 0) = []"
  using one_sample_per_goroutine [of "[idle_goroutine, waiting_goroutine]" None]
  by (simp add: idle_goroutine_def waiting_goroutine_def Duration_Nanoseconds_def Minute_def)

text \<open>
  The claim that the locations of a sample run from the innermost frame to the marker of
  the elided frames fails: for the stack \<open>main.worker, main.main\<close> with elided frames the
  sample's locations are the marker, \<open>main.main\<close>, \<open>main.worker\<close>. The last location is
  the frame that is executing, not the marker, and the first is the marker.
\<close>

theorem elided_last_location_counterexample:
  "FramesElided elided_goroutine \<and>
   map Func (Stack elided_goroutine) = [''main.worker'', ''main.main''] \<and>
   map Location_Frames
     (Sample_Location (Profile_Sample (build_Profile [elided_goroutine] None) ! 0)) =
     [[(''...additional frames elided...'', '''', 0)],
      [(''main.main'', ''/a/main.go'', 5)],
      [(''main.worker'', ''/a/b.go'', 10)]] \<and>
   map fst (Location_Frames
     (last (Sample_Location (Profile_Sample (build_Profile [elided_goroutine] None) ! 0)))) \<noteq>
     [''...additional frames elided...''] \<and>
   map fst (Location_Frames
     (hd (Sample_Location (Profile_Sample (build_Profile [elided_goroutine] None) ! 0)))) \<noteq>
     [Func (hd (Stack elided_goroutine))]"
  by (simp add: sample_nth frames_of_def elided_goroutine_def frame_worker_def frame_main_def
      elided_Frame_def all_frames_def)

text \<open>
  Claim C1, amended. For a goroutine with elided frames and a stack of \<open>n\<close> frames, the
  sample has \<open>n + 1\<close> locations in the reverse of the stack's order: the first is the
  marker (function \<open>...additional frames elided...\<close>, file empty, line 0), then come the
  frames of the stack from its last to its first, so the last location is the stack's first
  frame.
\<close>

theorem elided_sample_locations:
  "k < length gs \<Longrightarrow> FramesElided (gs ! k) \<Longrightarrow>
   length (Sample_Location (Profile_Sample (build_Profile gs errs) ! k)) =
     length (Stack (gs ! k)) + 1 \<and>
   map Location_Frames (Sample_Location (Profile_Sample (build_Profile gs errs) ! k)) =
     [(''...additional frames elided...'', '''', 0)] #
     rev (map (\<lambda>call. [(Func call, File call, word_of_int (Line call))]) (Stack (gs ! k)))"
  by (simp add: sample_nth frames_of_def rev_map [symmetric] map_Location_Frames_from
      elided_Frame_def)

text \<open>The truncated stack of two frames.\<close>

theorem elided_sample_locations_witness:
  "(0::nat) < length [elided_goroutine] \<and> FramesElided ([elided_goroutine] ! 0) \<and>
   length (Sample_Location (Profile_Sample (build_Profile [elided_goroutine] None) ! 0)) = 3 \<and>
   map Location_Frames (Sample_Location (Profile_Sample (build_Profile [elided_goroutine] None) ! 0)) =
     [[(''...additional frames elided...'', '''', 0)],
      [(''main.main'', ''/a/main.go'', 5)],
      [(''main.worker'', ''/a/b.go'', 10)]]"
  using elided_sample_locations [of 0 "[elided_goroutine]" None]
  by (simp add: elided_goroutine_def frame_worker_def frame_main_def)

subsection \<open>The function and location tables\<close>

text \<open>
  Claim C2. Every frame occurrence has its own function and its own location: both tables
  have one entry per frame of \<open>all_frames\<close>, in that order, whatever the frames are. The
  identifiers are \<open>1, 2, 3, ...\<close> in the order of construction; a table of fewer than
  \<open>2 ^ 64\<close> entries (a Go slice cannot hold more) has strictly increasing, pairwise
  distinct identifiers, and its entries are pairwise distinct.
\<close>

theorem no_deduplication:
  "length (Profile_Function (build_Profile gs errs)) = length (all_frames gs) \<and>
   length (Profile_Location (build_Profile gs errs)) = length (all_frames gs) \<and>
   map Function_Name (Profile_Function (build_Profile gs errs)) = map Func (all_frames gs) \<and>
   map Location_Frames (Profile_Location (build_Profile gs errs)) =
     map (\<lambda>call. [(Func call, File call, word_of_int (Line call))]) (all_frames gs) \<and>
   map Function_ID (Profile_Function (build_Profile gs errs)) =
     map (\<lambda>k. of_nat (Suc k)) [0..<length (all_frames gs)] \<and>
   map Location_ID (Profile_Location (build_Profile gs errs)) =
     map (\<lambda>k. of_nat (Suc k)) [0..<length (all_frames gs)] \<and>
   (length (all_frames gs) < 2 ^ 64 \<longrightarrow>
      map unat (map Function_ID (Profile_Function (build_Profile gs errs))) =
        map Suc [0..<length (all_frames gs)] \<and>
      map unat (map Location_ID (Profile_Location (build_Profile gs errs))) =
        map Suc [0..<length (all_frames gs)] \<and>
      sorted_wrt (<) (map Function_ID (Profile_Function (build_Profile gs errs))) \<and>
      sorted_wrt (<) (map Location_ID (Profile_Location (build_Profile gs errs))) \<and>
      distinct (map Function_ID (Profile_Function (build_Profile gs errs))) \<and>
      distinct (map Location_ID (Profile_Location (build_Profile gs errs))) \<and>
      distinct (Profile_Function (build_Profile gs errs)) \<and>
      distinct (Profile_Location (build_Profile gs errs)))"
proof -
  let ?n = "length (all_frames gs)"
  let ?ids = "map (\<lambda>k. of_nat (Suc k) :: uint64) [0..<?n]"
  have f: "map Function_ID (Profile_Function (build_Profile gs errs)) = ?ids"
    by (simp only: build_Profile_eq Profile.simps Function_ID_from ids_from_one)
  have l: "map Location_ID (Profile_Location (build_Profile gs errs)) = ?ids"
    by (simp only: build_Profile_eq Profile.simps Location_ID_from ids_from_one)
  have len: "length (Profile_Function (build_Profile gs errs)) = ?n"
    "length (Profile_Location (build_Profile gs errs)) = ?n"
    by (simp_all add: build_Profile_eq)
  have names: "map Function_Name (Profile_Function (build_Profile gs errs)) = map Func (all_frames gs)"
    by (simp add: build_Profile_eq Function_Name_from)
  have frames: "map Location_Frames (Profile_Location (build_Profile gs errs)) =
     map (\<lambda>call. [(Func call, File call, word_of_int (Line call))]) (all_frames gs)"
    by (simp add: build_Profile_eq map_Location_Frames_from)
  have bounded: "map unat (map Function_ID (Profile_Function (build_Profile gs errs))) =
        map Suc [0..<?n] \<and>
      map unat (map Location_ID (Profile_Location (build_Profile gs errs))) = map Suc [0..<?n] \<and>
      sorted_wrt (<) (map Function_ID (Profile_Function (build_Profile gs errs))) \<and>
      sorted_wrt (<) (map Location_ID (Profile_Location (build_Profile gs errs))) \<and>
      distinct (map Function_ID (Profile_Function (build_Profile gs errs))) \<and>
      distinct (map Location_ID (Profile_Location (build_Profile gs errs))) \<and>
      distinct (Profile_Function (build_Profile gs errs)) \<and>
      distinct (Profile_Location (build_Profile gs errs))" if n: "?n < 2 ^ 64"
  proof -
    have df: "distinct (map Function_ID (Profile_Function (build_Profile gs errs)))"
      unfolding f by (rule distinct_ids [OF n])
    have dl: "distinct (map Location_ID (Profile_Location (build_Profile gs errs)))"
      unfolding l by (rule distinct_ids [OF n])
    from df dl distinct_of_map [OF df] distinct_of_map [OF dl]
      unat_ids [OF n] increasing_ids [OF n]
    show ?thesis
      unfolding f l by blast
  qed
  from f l len names frames bounded show ?thesis by blast
qed

text \<open>Two goroutines with the same two frames: four functions and four locations.\<close>

theorem no_deduplication_witness:
  "length (all_frames twin_goroutines) < 2 ^ 64 \<and>
   map Func (all_frames twin_goroutines) =
     [''main.worker'', ''main.main'', ''main.worker'', ''main.main''] \<and>
   length (Profile_Function (build_Profile twin_goroutines None)) = 4 \<and>
   length (Profile_Location (build_Profile twin_goroutines None)) = 4 \<and>
   map Function_Name (Profile_Function (build_Profile twin_goroutines None)) =
     [''main.worker'', ''main.main'', ''main.worker'', ''main.main''] \<and>
   map unat (map Function_ID (Profile_Function (build_Profile twin_goroutines None))) = [1, 2, 3, 4] \<and>
   map unat (map Location_ID (Profile_Location (build_Profile twin_goroutines None))) = [1, 2, 3, 4] \<and>
   distinct (Profile_Function (build_Profile twin_goroutines None)) \<and>
   distinct (Profile_Location (build_Profile twin_goroutines None))"
proof -
  have n: "all_frames twin_goroutines = [frame_worker, frame_main, frame_worker, frame_main]"
    by (simp add: all_frames_def frames_of_def twin_goroutines_def)
  have up: "[0..<4] = [0, Suc 0, 2, 3]"
    by (simp add: upt_rec)
  from no_deduplication [of twin_goroutines None] show ?thesis
    by (simp add: n up frame_worker_def frame_main_def)
qed

text \<open>
  Claim C10. The two tables have the same length. The \<open>i\<close>-th location has the
  identifier \<open>i + 1\<close>, refers to the only mapping of the profile, whose identifier is 1,
  and has exactly one line, whose function is the \<open>i\<close>-th function; that function has
  the identifier \<open>i + 1\<close> too.
\<close>

theorem tables_aligned:
  "length (Profile_Function (build_Profile gs errs)) =
     length (Profile_Location (build_Profile gs errs)) \<and>
   (\<forall>i < length (Profile_Location (build_Profile gs errs)).
      Location_ID (Profile_Location (build_Profile gs errs) ! i) = of_nat (i + 1) \<and>
      (i + 1 < 2 ^ 64 \<longrightarrow> unat (Location_ID (Profile_Location (build_Profile gs errs) ! i)) = i + 1) \<and>
      Profile_Mapping (build_Profile gs errs) =
        [Location_Mapping (Profile_Location (build_Profile gs errs) ! i)] \<and>
      Mapping_ID (Location_Mapping (Profile_Location (build_Profile gs errs) ! i)) = 1 \<and>
      length (Location_Line (Profile_Location (build_Profile gs errs) ! i)) = 1 \<and>
      map Line_Function (Location_Line (Profile_Location (build_Profile gs errs) ! i)) =
        [Profile_Function (build_Profile gs errs) ! i] \<and>
      Function_ID (Profile_Function (build_Profile gs errs) ! i) = of_nat (i + 1) \<and>
      (i + 1 < 2 ^ 64 \<longrightarrow> unat (Function_ID (Profile_Function (build_Profile gs errs) ! i)) = i + 1))"
proof -
  have one: "(1::uint64) + of_nat i = of_nat (i + 1)" for i
    by simp
  have small: "unat (of_nat (i + 1) :: uint64) = i + 1" if "i + 1 < 2 ^ 64" for i
    using that by (simp add: unat_of_nat del: of_nat_Suc of_nat_add)
  show ?thesis
    by (simp add: build_Profile_eq locations_from_nth functions_from_nth Location_of_def
        Function_of_def the_Mapping_def one small del: of_nat_Suc of_nat_add One_nat_def)
qed

text \<open>The third location of the profile of the two goroutines with the same stack.\<close>

theorem tables_aligned_witness:
  "(2::nat) < length (Profile_Location (build_Profile twin_goroutines None)) \<and>
   length (Profile_Function (build_Profile twin_goroutines None)) = 4 \<and>
   unat (Location_ID (Profile_Location (build_Profile twin_goroutines None) ! 2)) = 3 \<and>
   Profile_Mapping (build_Profile twin_goroutines None) =
     [Location_Mapping (Profile_Location (build_Profile twin_goroutines None) ! 2)] \<and>
   Mapping_ID (Location_Mapping (Profile_Location (build_Profile twin_goroutines None) ! 2)) = 1 \<and>
   map Line_Function (Location_Line (Profile_Location (build_Profile twin_goroutines None) ! 2)) =
     [Profile_Function (build_Profile twin_goroutines None) ! 2] \<and>
   unat (Function_ID (Profile_Function (build_Profile twin_goroutines None) ! 2)) = 3"
proof -
  have n: "all_frames twin_goroutines = [frame_worker, frame_main, frame_worker, frame_main]"
    by (simp add: all_frames_def frames_of_def twin_goroutines_def)
  have len: "(2::nat) < length (Profile_Location (build_Profile twin_goroutines None))"
    "length (Profile_Function (build_Profile twin_goroutines None)) = 4"
    by (simp_all add: build_Profile_eq n)
  from tables_aligned [of twin_goroutines None, THEN conjunct2, rule_format, OF len(1)] len
  show ?thesis by simp
qed

subsection \<open>Parse errors\<close>

text \<open>
  Claim C4. When the parser returns the errors \<open>es\<close> next to the goroutines, the profile
  gets one comment per error, \<open>error: \<close> followed by the error's message, in order, and
  is otherwise the profile built without errors; it is a consistent graph, as every profile
  built from fewer than \<open>2 ^ 64\<close> frames is. The converter returns an error only if
  \<open>CheckValid\<close> or \<open>Write\<close> returns one for that profile: no path fails because of \<open>es\<close>.
\<close>

theorem parse_errors_become_comments:
  "parse r = (gs, Some es) \<Longrightarrow>
   Profile_Comments (build_Profile gs (Some es)) = map (\<lambda>err. ''error: '' @ error_Error err) es \<and>
   build_Profile gs (Some es) =
     (build_Profile gs None)\<lparr>Profile_Comments := map (\<lambda>err. ''error: '' @ error_Error err) es\<rparr> \<and>
   (length (all_frames gs) < 2 ^ 64 \<longrightarrow> graph_consistent (build_Profile gs (Some es))) \<and>
   (fst (goroutineDebug2ToPprof parse check write r w) = None \<longleftrightarrow>
      check (build_Profile gs (Some es)) = None \<and>
      fst (write (build_Profile gs (Some es)) w) = None)"
proof -
  assume p: "parse r = (gs, Some es)"
  have c: "Profile_Comments (build_Profile gs (Some es)) =
      map (\<lambda>err. ''error: '' @ error_Error err) es"
    by (simp add: build_Profile_eq)
  have b: "build_Profile gs (Some es) =
     (build_Profile gs None)\<lparr>Profile_Comments := map (\<lambda>err. ''error: '' @ error_Error err) es\<rparr>"
    by (simp add: build_Profile_eq)
  have r: "fst (goroutineDebug2ToPprof parse check write r w) = None \<longleftrightarrow>
      check (build_Profile gs (Some es)) = None \<and>
      fst (write (build_Profile gs (Some es)) w) = None"
    using p by (auto simp add: goroutineDebug2ToPprof_def Let_def split: option.splits prod.splits)
  from c b r build_Profile_consistent [of gs "Some es"] show ?thesis
    by blast
qed

text \<open>
  One parse error next to goroutine 7, a validation that checks consistency and a writer
  that accepts.
\<close>

theorem parse_errors_become_comments_witness:
  "length (all_frames [waiting_goroutine]) < 2 ^ 64 \<and>
   Profile_Comments (build_Profile [waiting_goroutine] (Some [errors_New ''bad header''])) =
     [''error: bad header''] \<and>
   graph_consistent (build_Profile [waiting_goroutine] (Some [errors_New ''bad header''])) \<and>
   fst (goroutineDebug2ToPprof (\<lambda>r. ([waiting_goroutine], Some [errors_New ''bad header'']))
          checking_CheckValid (\<lambda>q w. (None, w)) [] []) = None"
proof -
  let ?q = "build_Profile [waiting_goroutine] (Some [errors_New ''bad header''])"
  have n: "length (all_frames [waiting_goroutine]) < 2 ^ 64"
    by (simp add: all_frames_def frames_of_def waiting_goroutine_def)
  note inst = parse_errors_become_comments
    [of "\<lambda>r. ([waiting_goroutine], Some [errors_New ''bad header''])" "[]"
        "[waiting_goroutine]" "[errors_New ''bad header'']" checking_CheckValid
        "\<lambda>q w. (None, w)" "[]", OF refl]
  from inst have c: "Profile_Comments ?q = [''error: bad header'']"
    by simp
  from inst n have g: "graph_consistent ?q"
    by blast
  then have v: "checking_CheckValid ?q = None"
    by (simp add: checking_CheckValid_def)
  from inst have "fst (goroutineDebug2ToPprof (\<lambda>r. ([waiting_goroutine], Some [errors_New ''bad header'']))
          checking_CheckValid (\<lambda>q w. (None, w)) [] []) = None \<longleftrightarrow>
      checking_CheckValid ?q = None \<and> fst ((\<lambda>q w. (None, w)) ?q ([] :: bytes)) = (None :: error option)"
    by blast
  with v have "fst (goroutineDebug2ToPprof (\<lambda>r. ([waiting_goroutine], Some [errors_New ''bad header'']))
          checking_CheckValid (\<lambda>q w. (None, w)) [] []) = None"
    by simp
  with n c g show ?thesis by blast
qed

end
